theory Spec2Isabelle
  imports Complex_Main "HOL-Library.Word" "HOL-Library.Signed_Division"
begin

section \<open>Basic Go types\<close>

text \<open>
  A \<open>rune\<close> is Go's \<open>int32\<close>: a Unicode code point. Go's \<open>int\<close> is modelled by
  \<open>int\<close>: the functions below compare, copy, add and subtract track angles and grid
  coordinates, which are far from the ends of the 64-bit range. A run-time panic is a
  value of the type \<open>panic\<close>.
\<close>

type_synonym rune = "32 word"

datatype panic = IndexOutOfRange | MakesliceLenOutOfRange

text \<open>
  \<open>time.Time\<close> is an instant counted in nanoseconds on one clock, \<open>time.Duration\<close> is
  an \<open>int64\<close> count of nanoseconds. \<open>Time.Sub\<close> saturates at the ends of the range of
  \<open>Duration\<close>, and \<open>time.Since(t)\<close> is \<open>time.Now().Sub(t)\<close>: the reading of the clock
  is the argument \<open>now\<close>.
\<close>

type_synonym Time = int
type_synonym Duration = int

definition Nanosecond :: Duration where
  "Nanosecond = 1"

definition Second :: Duration where
  "Second = 1000000000 * Nanosecond"

definition minDuration :: Duration where
  "minDuration = - (2 ^ 63)"

definition maxDuration :: Duration where
  "maxDuration = 2 ^ 63 - 1"

definition Sub :: "Time \<Rightarrow> Time \<Rightarrow> Duration" where
  "Sub t u =
     (let d = t - u
      in if d < minDuration then minDuration
         else if maxDuration < d then maxDuration
         else d)"

definition Since :: "Time \<Rightarrow> Time \<Rightarrow> Duration" where
  "Since now t = Sub now t"

section \<open>Aircraft (internal/adsb/aircraft.go)\<close>

text \<open>
  The type variable \<open>'f\<close> stands for \<open>float64\<close>; a \<open>*float64\<close> that may be nil is an
  option.
\<close>

record 'f Aircraft =
  ICAO :: string
  FlightNumber :: string
  Latitude :: "'f option"
  Longitude :: "'f option"
  Altitude :: int
  Speed :: int
  Heading :: int
  Track :: int
  VerticalRate :: int
  LastSeen :: Time

definition PositionLocked :: "'f Aircraft \<Rightarrow> bool" where
  "PositionLocked a \<longleftrightarrow> Latitude a \<noteq> None \<and> Longitude a \<noteq> None"

text \<open>The arrows of \<open>CardinalDirection\<close>, as code points.\<close>

definition rune_N :: rune where "rune_N = 0x5E"
definition rune_NE :: rune where "rune_NE = 0x2510"
definition rune_E :: rune where "rune_E = 0x3E"
definition rune_SE :: rune where "rune_SE = 0x2518"
definition rune_S :: rune where "rune_S = 0x76"
definition rune_SW :: rune where "rune_SW = 0x2514"
definition rune_W :: rune where "rune_W = 0x3C"
definition rune_NW :: rune where "rune_NW = 0x250C"
definition rune_Unknown :: rune where "rune_Unknown = 0xB7"

text \<open>
  Go's \<open>%\<close> truncates towards zero (\<open>smod\<close>); the sign of the result is the sign of
  the dividend, hence the correction of a negative remainder.
\<close>

definition normalize_direction :: "'f Aircraft \<Rightarrow> int" where
  "normalize_direction a =
     (let direction = Track a;
          direction = (if direction = 0 \<and> Heading a \<noteq> 0 then Heading a else direction);
          direction = direction smod 360;
          direction = (if direction < 0 then direction + 360 else direction)
      in direction)"

definition CardinalDirection :: "'f Aircraft \<Rightarrow> rune" where
  "CardinalDirection a =
     (let direction = normalize_direction a
      in if direction \<ge> 338 \<or> direction < 23 then rune_N
         else if direction \<ge> 23 \<and> direction < 68 then rune_NE
         else if direction \<ge> 68 \<and> direction < 113 then rune_E
         else if direction \<ge> 113 \<and> direction < 158 then rune_SE
         else if direction \<ge> 158 \<and> direction < 203 then rune_S
         else if direction \<ge> 203 \<and> direction < 248 then rune_SW
         else if direction \<ge> 248 \<and> direction < 293 then rune_W
         else if direction \<ge> 293 \<and> direction < 338 then rune_NW
         else rune_Unknown)"

definition IsStale :: "Time \<Rightarrow> 'f Aircraft \<Rightarrow> bool" where
  "IsStale now a \<longleftrightarrow> Since now (LastSeen a) \<ge> 60 * Second"

section \<open>Tracker\<close>

text \<open>
  The Go map from ICAO identifiers to aircraft is a partial function. The mutex has no
  counterpart: each operation is one atomic step on the state.
\<close>

record 'f Tracker =
  aircraft :: "string \<rightharpoonup> 'f Aircraft"
  timeout :: Duration

definition NewTracker :: "Duration \<Rightarrow> 'f Tracker" where
  "NewTracker timeout0 =
     (let timeout1 = (if timeout0 = 0 then 60 * Second else timeout0)
      in \<lparr>aircraft = Map.empty, timeout = timeout1\<rparr>)"

text \<open>
  The merge of \<open>Update\<close>, assignment by assignment. The existing entry is mutated in
  place, so the map holds the merged record under the same key.
\<close>

definition merge :: "'f Aircraft \<Rightarrow> 'f Aircraft \<Rightarrow> 'f Aircraft" where
  "merge existing ac =
     (let e = existing\<lparr>LastSeen := LastSeen ac\<rparr>;
          e = (if FlightNumber ac \<noteq> [] then e\<lparr>FlightNumber := FlightNumber ac\<rparr> else e);
          e = (if Latitude ac \<noteq> None then e\<lparr>Latitude := Latitude ac\<rparr> else e);
          e = (if Longitude ac \<noteq> None then e\<lparr>Longitude := Longitude ac\<rparr> else e);
          e = (if Altitude ac \<noteq> 0 then e\<lparr>Altitude := Altitude ac\<rparr> else e);
          e = (if Speed ac \<noteq> 0 then e\<lparr>Speed := Speed ac\<rparr> else e);
          e = (if Heading ac \<noteq> 0 then e\<lparr>Heading := Heading ac\<rparr> else e);
          e = (if Track ac \<noteq> 0 then e\<lparr>Track := Track ac\<rparr> else e);
          e = (if VerticalRate ac \<noteq> 0 then e\<lparr>VerticalRate := VerticalRate ac\<rparr> else e)
      in e)"

definition Update :: "'f Tracker \<Rightarrow> 'f Aircraft option \<Rightarrow> 'f Tracker" where
  "Update t acp =
     (case acp of
        None \<Rightarrow> t
      | Some ac \<Rightarrow>
          if ICAO ac = [] then t
          else (case aircraft t (ICAO ac) of
                  None \<Rightarrow> t\<lparr>aircraft := (aircraft t)(ICAO ac \<mapsto> ac)\<rparr>
                | Some existing \<Rightarrow>
                    t\<lparr>aircraft := (aircraft t)(ICAO ac \<mapsto> merge existing ac)\<rparr>))"

text \<open>
  \<open>PruneStale\<close> ranges over the map and deletes the entry it stands on. Go leaves the
  order of the iteration open: \<open>order\<close> is the order in which the keys are produced, and
  a key deleted before it is reached would not be produced.
\<close>

fun PruneStale_loop :: "Time \<Rightarrow> string list \<Rightarrow> 'f Tracker \<Rightarrow> int \<Rightarrow> 'f Tracker \<times> int" where
  "PruneStale_loop now [] t removed = (t, removed)"
| "PruneStale_loop now (icao # rest) t removed =
     (case aircraft t icao of
        None \<Rightarrow> PruneStale_loop now rest t removed
      | Some ac \<Rightarrow>
          if IsStale now ac
          then PruneStale_loop now rest (t\<lparr>aircraft := (aircraft t)(icao := None)\<rparr>) (removed + 1)
          else PruneStale_loop now rest t removed)"

definition PruneStale :: "Time \<Rightarrow> string list \<Rightarrow> 'f Tracker \<Rightarrow> 'f Tracker \<times> int" where
  "PruneStale now order t = PruneStale_loop now order t 0"


section \<open>Canvas\<close>

text \<open>
  \<open>tcell.Style\<close> belongs to the terminal library. Of a style the program sets the
  foreground and background colours and the bold and reverse attributes.
\<close>

datatype Color = ColorDefault | ColorDarkGray | ColorYellow | ColorDarkCyan | ColorDarkBlue
  | ColorWhite | ColorOrange | ColorGreen | ColorBlack

record Style =
  fg :: Color
  bg :: Color
  bold :: bool
  reverse :: bool

definition StyleDefault :: Style where
  "StyleDefault = \<lparr>fg = ColorDefault, bg = ColorDefault, bold = False, reverse = False\<rparr>"

definition Foreground :: "Color \<Rightarrow> Style \<Rightarrow> Style" where
  "Foreground c s = s\<lparr>fg := c\<rparr>"

definition Bold :: "bool \<Rightarrow> Style \<Rightarrow> Style" where
  "Bold b s = s\<lparr>bold := b\<rparr>"

definition Reverse :: "bool \<Rightarrow> Style \<Rightarrow> Style" where
  "Reverse b s = s\<lparr>reverse := b\<rparr>"

definition StyleAirport :: Style where
  "StyleAirport = Foreground ColorOrange StyleDefault"

definition StyleLabel :: Style where
  "StyleLabel = Foreground ColorWhite StyleDefault"

record Cell =
  cell_Char :: rune
  cell_Style :: Style

record Canvas =
  width :: int
  height :: int
  cells :: "Cell list list"

definition blank :: Cell where
  "blank = \<lparr>cell_Char = 0x20, cell_Style = StyleDefault\<rparr>"

text \<open>\<open>make\<close> panics on a negative length; the rows are made only when there is one.\<close>

definition NewCanvas :: "int \<Rightarrow> int \<Rightarrow> panic + Canvas" where
  "NewCanvas w h =
     (if h < 0 then Inl MakesliceLenOutOfRange
      else if 0 < h \<and> w < 0 then Inl MakesliceLenOutOfRange
      else Inr \<lparr>width = w, height = h, cells = replicate (nat h) (replicate (nat w) blank)\<rparr>)"

text \<open>
  \<open>Set\<close> writes \<open>c.cells[y][x]\<close> inside the bounds test; indexing a slice beyond its
  length panics.
\<close>

definition Canvas_Set :: "Canvas \<Rightarrow> int \<Rightarrow> int \<Rightarrow> rune \<Rightarrow> Style \<Rightarrow> panic + Canvas" where
  "Canvas_Set c x y char style =
     (if x \<ge> 0 \<and> x < width c \<and> y \<ge> 0 \<and> y < height c
      then (if nat y < length (cells c) \<and> nat x < length (cells c ! nat y)
            then Inr (c\<lparr>cells := (cells c)[nat y := (cells c ! nat y)[nat x :=
                        \<lparr>cell_Char = char, cell_Style = style\<rparr>]]\<rparr>)
            else Inl IndexOutOfRange)
      else Inr c)"

definition Canvas_Get :: "Canvas \<Rightarrow> int \<Rightarrow> int \<Rightarrow> panic + Cell" where
  "Canvas_Get c x y =
     (if x \<ge> 0 \<and> x < width c \<and> y \<ge> 0 \<and> y < height c
      then (if nat y < length (cells c) \<and> nat x < length (cells c ! nat y)
            then Inr (cells c ! nat y ! nat x)
            else Inl IndexOutOfRange)
      else Inr blank)"

definition Clear :: "Canvas \<Rightarrow> Canvas" where
  "Clear c = c\<lparr>cells := map (map (\<lambda>_. blank)) (cells c)\<rparr>"

text \<open>
  The shape that \<open>NewCanvas\<close> gives a canvas, and that \<open>Set\<close> and \<open>Clear\<close> keep:
  \<open>height\<close> rows of \<open>width\<close> cells.
\<close>

definition well_shaped :: "Canvas \<Rightarrow> bool" where
  "well_shaped c \<longleftrightarrow>
     length (cells c) = nat (height c) \<and>
     list_all (\<lambda>row. length row = nat (width c)) (cells c)"

section \<open>Strings\<close>

text \<open>
  A Go string is a sequence of bytes, \<open>len\<close> is its number of bytes, and \<open>range\<close> over
  a string decodes UTF-8: it produces the byte index where each code point starts and
  the code point, and for a byte that starts no valid encoding the code point U+FFFD
  and a step of one byte. The masks and shifts of the decoder are written as \<open>mod\<close>
  and multiplication.
\<close>

definition RuneError :: rune where
  "RuneError = 0xFFFD"

definition in_range :: "nat \<Rightarrow> nat \<Rightarrow> nat \<Rightarrow> bool" where
  "in_range lo hi b \<longleftrightarrow> lo \<le> b \<and> b \<le> hi"

definition second_byte_ok :: "nat \<Rightarrow> nat \<Rightarrow> bool" where
  "second_byte_ok b0 b1 =
     (if b0 = 0xE0 then in_range 0xA0 0xBF b1
      else if b0 = 0xED then in_range 0x80 0x9F b1
      else if b0 = 0xF0 then in_range 0x90 0xBF b1
      else if b0 = 0xF4 then in_range 0x80 0x8F b1
      else in_range 0x80 0xBF b1)"

fun decode_rune :: "nat list \<Rightarrow> rune \<times> nat" where
  "decode_rune [] = (RuneError, 1)"
| "decode_rune (b0 # bs) =
     (if b0 < 0x80 then (word_of_nat b0, 1)
      else if in_range 0xC2 0xDF b0 then
        (case bs of
           b1 # _ \<Rightarrow>
             if second_byte_ok b0 b1
             then (word_of_nat ((b0 mod 32) * 64 + b1 mod 64), 2)
             else (RuneError, 1)
         | _ \<Rightarrow> (RuneError, 1))
      else if in_range 0xE0 0xEF b0 then
        (case bs of
           b1 # b2 # _ \<Rightarrow>
             if second_byte_ok b0 b1 \<and> in_range 0x80 0xBF b2
             then (word_of_nat ((b0 mod 16) * 4096 + (b1 mod 64) * 64 + b2 mod 64), 3)
             else (RuneError, 1)
         | _ \<Rightarrow> (RuneError, 1))
      else if in_range 0xF0 0xF4 b0 then
        (case bs of
           b1 # b2 # b3 # _ \<Rightarrow>
             if second_byte_ok b0 b1 \<and> in_range 0x80 0xBF b2 \<and> in_range 0x80 0xBF b3
             then (word_of_nat ((b0 mod 8) * 262144 + (b1 mod 64) * 4096
                                + (b2 mod 64) * 64 + b3 mod 64), 4)
             else (RuneError, 1)
         | _ \<Rightarrow> (RuneError, 1))
      else (RuneError, 1))"

text \<open>
  \<open>range_bytes fuel i bs\<close> is the iteration over the bytes \<open>bs\<close> that start at index
  \<open>i\<close>; each step consumes at least one byte, so the length of the string is fuel
  enough.
\<close>

fun range_bytes :: "nat \<Rightarrow> int \<Rightarrow> nat list \<Rightarrow> (int \<times> rune) list" where
  "range_bytes 0 i bs = []"
| "range_bytes (Suc fuel) i bs =
     (if bs = [] then []
      else (let (r, n) = decode_rune bs
            in (i, r) # range_bytes fuel (i + int n) (drop n bs)))"

definition range_string :: "string \<Rightarrow> (int \<times> rune) list" where
  "range_string text = range_bytes (length text) 0 (map of_char text)"

fun DrawText_loop :: "Canvas \<Rightarrow> int \<Rightarrow> int \<Rightarrow> (int \<times> rune) list \<Rightarrow> Style \<Rightarrow> panic + Canvas" where
  "DrawText_loop c x y [] style = Inr c"
| "DrawText_loop c x y ((i, char) # rest) style =
     (case Canvas_Set c (x + i) y char style of
        Inl e \<Rightarrow> Inl e
      | Inr c' \<Rightarrow> DrawText_loop c' x y rest style)"

definition DrawText :: "Canvas \<Rightarrow> int \<Rightarrow> int \<Rightarrow> string \<Rightarrow> Style \<Rightarrow> panic + Canvas" where
  "DrawText c x y text style = DrawText_loop c x y (range_string text) style"

section \<open>Projection\<close>

text \<open>
  The arithmetic and the comparisons of \<open>float64\<close> are the operations of the type
  \<open>'f\<close>, of which no law is assumed. What else the program needs of \<open>float64\<close> is a
  parameter: \<open>math.Cos\<close>, the value \<open>const r\<close> of a constant such as \<open>69.0\<close> or
  \<open>math.Pi\<close>, and the conversions \<open>float64(n)\<close> and \<open>int(x)\<close>.
\<close>

record 'f float64_ops =
  Cos :: "'f \<Rightarrow> 'f"
  const :: "real \<Rightarrow> 'f"
  float64 :: "int \<Rightarrow> 'f"
  to_int :: "'f \<Rightarrow> int"

record Point =
  X :: int
  Y :: int

record 'f Projection =
  centerLat :: 'f
  centerLon :: 'f
  radiusMiles :: 'f
  screenWidth :: int
  screenHeight :: int
  aspectRatio :: 'f
  scaleX :: 'f
  scaleY :: 'f

definition calculateScale ::
  "'f::{times,inverse,ord} float64_ops \<Rightarrow> 'f Projection \<Rightarrow> 'f Projection" where
  "calculateScale F p =
     (let milesPerDegreeLat = const F 69;
          milesPerDegreeLon = const F 69 * Cos F (centerLat p * const F pi / const F 180);
          degreesLat = radiusMiles p / milesPerDegreeLat;
          degreesLon = radiusMiles p / milesPerDegreeLon;
          totalDegreesLat = degreesLat * const F 2;
          totalDegreesLon = degreesLon * const F 2;
          effectiveHeight = float64 F (screenHeight p) * aspectRatio p;
          sy = effectiveHeight / totalDegreesLat;
          sx = float64 F (screenWidth p) / totalDegreesLon
      in if sx < sy
         then p\<lparr>scaleX := sx, scaleY := sx / aspectRatio p\<rparr>
         else p\<lparr>scaleX := sy * aspectRatio p, scaleY := sy\<rparr>)"

definition zero_value :: "'f float64_ops \<Rightarrow> 'f" where
  "zero_value F = const F 0"

definition NewProjection ::
  "'f::{times,inverse,ord} float64_ops \<Rightarrow> 'f \<Rightarrow> 'f \<Rightarrow> 'f \<Rightarrow> int \<Rightarrow> int \<Rightarrow> 'f \<Rightarrow> 'f Projection" where
  "NewProjection F centerLat0 centerLon0 radiusMiles0 screenWidth0 screenHeight0 aspectRatio0 =
     calculateScale F
       \<lparr>centerLat = centerLat0, centerLon = centerLon0, radiusMiles = radiusMiles0,
        screenWidth = screenWidth0, screenHeight = screenHeight0, aspectRatio = aspectRatio0,
        scaleX = zero_value F, scaleY = zero_value F\<rparr>"

text \<open>The division of \<open>int\<close> truncates towards zero (\<open>sdiv\<close>).\<close>

definition Project ::
  "'f::{minus,uminus,times} float64_ops \<Rightarrow> 'f Projection \<Rightarrow> 'f \<Rightarrow> 'f \<Rightarrow> Point" where
  "Project F p lat lon =
     (let deltaLat = lat - centerLat p;
          deltaLon = lon - centerLon p;
          x = to_int F (deltaLon * scaleX p);
          y = to_int F ((- deltaLat) * scaleY p);
          x = x + screenWidth p sdiv 2;
          y = y + screenHeight p sdiv 2
      in \<lparr>X = x, Y = y\<rparr>)"

definition UpdateCenter ::
  "'f::{times,inverse,ord} float64_ops \<Rightarrow> 'f Projection \<Rightarrow> 'f \<Rightarrow> 'f \<Rightarrow> 'f Projection" where
  "UpdateCenter F p lat lon = calculateScale F (p\<lparr>centerLat := lat, centerLon := lon\<rparr>)"

definition Projection_UpdateDimensions ::
  "'f::{times,inverse,ord} float64_ops \<Rightarrow> 'f Projection \<Rightarrow> int \<Rightarrow> int \<Rightarrow> 'f Projection" where
  "Projection_UpdateDimensions F p w h =
     calculateScale F (p\<lparr>screenWidth := w, screenHeight := h\<rparr>)"

definition GetCenter :: "'f Projection \<Rightarrow> 'f \<times> 'f" where
  "GetCenter p = (centerLat p, centerLon p)"

section \<open>Features and culling\<close>

datatype FeatureType = FeatureStateBorder | FeatureHighway | FeatureRiver | FeatureCoastline
  | FeatureCity | FeatureAirport

record 'f LatLon =
  Lat :: 'f
  Lon :: 'f

text \<open>
  The field \<open>Properties\<close> of a feature is never read by the renderer and is left out.
  The elements of a slice of features or of aircraft are pointers that are never nil:
  the loaders and \<open>Tracker.Update\<close> store none.
\<close>

record 'f Feature =
  Type :: FeatureType
  Points :: "'f LatLon list"
  Point :: "'f LatLon option"
  Name :: string

record 'f Bounds =
  MinLat :: 'f
  MaxLat :: 'f
  MinLon :: 'f
  MaxLon :: 'f

definition IsPoint :: "'f Feature \<Rightarrow> bool" where
  "IsPoint f \<longleftrightarrow> Point f \<noteq> None"

definition IsLine :: "'f Feature \<Rightarrow> bool" where
  "IsLine f \<longleftrightarrow> length (Points f) > 0"

definition Contains :: "'f::ord Bounds \<Rightarrow> 'f \<Rightarrow> 'f \<Rightarrow> bool" where
  "Contains b lat lon \<longleftrightarrow>
     lat \<ge> MinLat b \<and> lat \<le> MaxLat b \<and> lon \<ge> MinLon b \<and> lon \<le> MaxLon b"

fun hasPointInBounds :: "'f::ord Bounds \<Rightarrow> 'f LatLon list \<Rightarrow> bool" where
  "hasPointInBounds b [] = False"
| "hasPointInBounds b (point # rest) =
     (if Contains b (Lat point) (Lon point) then True else hasPointInBounds b rest)"

fun FilterByBounds :: "'f::ord Feature list \<Rightarrow> 'f Bounds \<Rightarrow> 'f Feature list" where
  "FilterByBounds [] bounds = []"
| "FilterByBounds (feature # rest) bounds =
     (case Point feature of
        Some pt \<Rightarrow>
          if Contains bounds (Lat pt) (Lon pt)
          then feature # FilterByBounds rest bounds
          else FilterByBounds rest bounds
      | None \<Rightarrow>
          if IsLine feature
          then (if hasPointInBounds bounds (Points feature)
                then feature # FilterByBounds rest bounds
                else FilterByBounds rest bounds)
          else FilterByBounds rest bounds)"

section \<open>MapRenderer\<close>

record 'f MapRenderer =
  projection :: "'f Projection"
  features :: "FeatureType \<rightharpoonup> 'f Feature list"
  canvas :: Canvas

definition abs_int :: "int \<Rightarrow> int" where
  "abs_int x = (if x < 0 then - x else x)"

text \<open>
  The loop of \<open>DrawLine\<close> has no bound of its own: its model is a partial function, and
  \<open>None\<close> is the loop that never ends.
\<close>

partial_function (option) DrawLine_loop ::
  "Canvas \<Rightarrow> int \<Rightarrow> int \<Rightarrow> int \<Rightarrow> int \<Rightarrow> int \<Rightarrow> int \<Rightarrow> int \<Rightarrow> int \<Rightarrow> int \<Rightarrow> rune \<Rightarrow> Style
     \<Rightarrow> (panic + Canvas) option" where
  "DrawLine_loop c x0 y0 x1 y1 dx dy sx sy err char style =
     (case Canvas_Set c x0 y0 char style of
        Inl e \<Rightarrow> Some (Inl e)
      | Inr c' \<Rightarrow>
          if x0 = x1 \<and> y0 = y1 then Some (Inr c')
          else (let e2 = 2 * err;
                    err1 = (if e2 > - dy then err - dy else err);
                    x0' = (if e2 > - dy then x0 + sx else x0);
                    err2 = (if e2 < dx then err1 + dx else err1);
                    y0' = (if e2 < dx then y0 + sy else y0)
                in DrawLine_loop c' x0' y0' x1 y1 dx dy sx sy err2 char style))"

definition DrawLine ::
  "'f MapRenderer \<Rightarrow> int \<Rightarrow> int \<Rightarrow> int \<Rightarrow> int \<Rightarrow> rune \<Rightarrow> Style \<Rightarrow> (panic + 'f MapRenderer) option" where
  "DrawLine m x0 y0 x1 y1 char style =
     (let dx = abs_int (x1 - x0);
          dy = abs_int (y1 - y0);
          sx = (if x0 < x1 then 1 else - 1);
          sy = (if y0 < y1 then 1 else - 1);
          err = dx - dy
      in case DrawLine_loop (canvas m) x0 y0 x1 y1 dx dy sx sy err char style of
           None \<Rightarrow> None
         | Some (Inl e) \<Rightarrow> Some (Inl e)
         | Some (Inr c') \<Rightarrow> Some (Inr (m\<lparr>canvas := c'\<rparr>)))"

text \<open>The first loop of \<open>renderCitiesAndAirports\<close>: the grid positions of the airports.\<close>

fun airportPositions ::
  "'f::{minus,uminus,times} float64_ops \<Rightarrow> 'f Projection \<Rightarrow> 'f Feature list \<Rightarrow> Point list" where
  "airportPositions F p [] = []"
| "airportPositions F p (airport # rest) =
     (case Point airport of
        None \<Rightarrow> airportPositions F p rest
      | Some pt \<Rightarrow> Project F p (Lat pt) (Lon pt) # airportPositions F p rest)"

text \<open>The inner loop over the airport positions, with its two exits.\<close>

fun skipCity :: "Point list \<Rightarrow> Point \<Rightarrow> bool" where
  "skipCity [] point = False"
| "skipCity (airportPos # rest) point =
     (if Y airportPos = Y point \<and> abs_int (X airportPos - X point) \<le> 5 then True
      else if abs_int (Y airportPos - Y point) \<le> 1 \<and> abs_int (X airportPos - X point) \<le> 3 then True
      else skipCity rest point)"

text \<open>The body of the loop over the cities, and the loop.\<close>

definition renderCity ::
  "'f::{minus,uminus,times} float64_ops \<Rightarrow> 'f Projection \<Rightarrow> Point list \<Rightarrow> Canvas \<Rightarrow> 'f Feature
     \<Rightarrow> panic + Canvas" where
  "renderCity F p positions c city =
     (case Point city of
        None \<Rightarrow> Inr c
      | Some pt \<Rightarrow>
          if Name city = [] then Inr c
          else (let point = Project F p (Lat pt) (Lon pt)
                in if skipCity positions point then Inr c
                   else if X point < width c - int (length (Name city)) - 1
                        then DrawText c (X point) (Y point) (Name city) StyleLabel
                        else Inr c))"

fun renderCities ::
  "'f::{minus,uminus,times} float64_ops \<Rightarrow> 'f Projection \<Rightarrow> Point list \<Rightarrow> Canvas \<Rightarrow> 'f Feature list
     \<Rightarrow> panic + Canvas" where
  "renderCities F p positions c [] = Inr c"
| "renderCities F p positions c (city # rest) =
     (case renderCity F p positions c city of
        Inl e \<Rightarrow> Inl e
      | Inr c' \<Rightarrow> renderCities F p positions c' rest)"

text \<open>The body of the loop over the airports, and the loop.\<close>

definition renderAirport ::
  "'f::{minus,uminus,times} float64_ops \<Rightarrow> 'f Projection \<Rightarrow> Canvas \<Rightarrow> 'f Feature \<Rightarrow> panic + Canvas" where
  "renderAirport F p c airport =
     (case Point airport of
        None \<Rightarrow> Inr c
      | Some pt \<Rightarrow>
          (let point = Project F p (Lat pt) (Lon pt)
           in case Canvas_Set c (X point) (Y point) 0x40 StyleAirport of
                Inl e \<Rightarrow> Inl e
              | Inr c' \<Rightarrow>
                  if Name airport \<noteq> [] \<and> X point < width c' - int (length (Name airport)) - 1
                  then DrawText c' (X point + 1) (Y point) (Name airport) StyleLabel
                  else Inr c'))"

fun renderAirports ::
  "'f::{minus,uminus,times} float64_ops \<Rightarrow> 'f Projection \<Rightarrow> Canvas \<Rightarrow> 'f Feature list
     \<Rightarrow> panic + Canvas" where
  "renderAirports F p c [] = Inr c"
| "renderAirports F p c (airport # rest) =
     (case renderAirport F p c airport of
        Inl e \<Rightarrow> Inl e
      | Inr c' \<Rightarrow> renderAirports F p c' rest)"

definition visibleAirports :: "'f::ord MapRenderer \<Rightarrow> 'f Bounds \<Rightarrow> 'f Feature list" where
  "visibleAirports m bounds =
     (case features m FeatureAirport of
        None \<Rightarrow> []
      | Some airports \<Rightarrow> FilterByBounds airports bounds)"

definition visibleCities :: "'f::ord MapRenderer \<Rightarrow> 'f Bounds \<Rightarrow> 'f Feature list" where
  "visibleCities m bounds =
     (case features m FeatureCity of
        None \<Rightarrow> []
      | Some cities \<Rightarrow> FilterByBounds cities bounds)"

definition renderCitiesAndAirports ::
  "'f::{minus,uminus,times,ord} float64_ops \<Rightarrow> 'f MapRenderer \<Rightarrow> 'f Bounds \<Rightarrow> panic + 'f MapRenderer" where
  "renderCitiesAndAirports F m bounds =
     (let positions = airportPositions F (projection m) (visibleAirports m bounds)
      in case renderCities F (projection m) positions (canvas m) (visibleCities m bounds) of
           Inl e \<Rightarrow> Inl e
         | Inr c1 \<Rightarrow>
             (case renderAirports F (projection m) c1 (visibleAirports m bounds) of
                Inl e \<Rightarrow> Inl e
              | Inr c2 \<Rightarrow> Inr (m\<lparr>canvas := c2\<rparr>)))"

section \<open>MapView\<close>

text \<open>
  The fields \<open>projection\<close> and \<open>canvas\<close> of a \<open>MapView\<close> point to the objects that its
  renderer holds: \<open>NewMapView\<close>, \<open>SetRadius\<close> and \<open>UpdateDimensions\<close> assign both
  together. The model keeps the one copy, in the renderer. The calls of \<open>debug.Log\<close>
  write to a log and leave the state alone.
\<close>

record 'f MapView =
  renderer :: "'f MapRenderer"
  centerSet :: bool
  mv_width :: int
  mv_height :: int
  mv_radiusMiles :: 'f
  mv_aspectRatio :: 'f

definition NewMapView ::
  "'f::{times,inverse,ord} float64_ops \<Rightarrow> int \<Rightarrow> int \<Rightarrow> (FeatureType \<rightharpoonup> 'f Feature list) \<Rightarrow> 'f \<Rightarrow> 'f
     \<Rightarrow> panic + 'f MapView" where
  "NewMapView F w h fs radius aspect =
     (let centerLat0 = const F 39.8283;
          centerLon0 = const F (- 98.5795);
          projection0 = NewProjection F centerLat0 centerLon0 radius w h aspect
      in case NewCanvas w h of
           Inl e \<Rightarrow> Inl e
         | Inr canvas0 \<Rightarrow>
             Inr \<lparr>renderer = \<lparr>projection = projection0, features = fs, canvas = canvas0\<rparr>,
                  centerSet = False, mv_width = w, mv_height = h,
                  mv_radiusMiles = radius, mv_aspectRatio = aspect\<rparr>)"

definition set_center :: "'f::{times,inverse,ord} float64_ops \<Rightarrow> 'f MapView \<Rightarrow> 'f \<Rightarrow> 'f \<Rightarrow> 'f MapView" where
  "set_center F m lat lon =
     m\<lparr>renderer := (renderer m)\<lparr>projection := UpdateCenter F (projection (renderer m)) lat lon\<rparr>,
       centerSet := True\<rparr>"

fun SetCenterFromFirstAircraft_loop ::
  "'f::{times,inverse,ord} float64_ops \<Rightarrow> 'f MapView \<Rightarrow> 'f Aircraft list \<Rightarrow> 'f MapView \<times> bool" where
  "SetCenterFromFirstAircraft_loop F m [] = (m, False)"
| "SetCenterFromFirstAircraft_loop F m (ac # rest) =
     (if PositionLocked ac
      then (set_center F m (the (Latitude ac)) (the (Longitude ac)), True)
      else SetCenterFromFirstAircraft_loop F m rest)"

definition SetCenterFromFirstAircraft ::
  "'f::{times,inverse,ord} float64_ops \<Rightarrow> 'f MapView \<Rightarrow> 'f Aircraft list \<Rightarrow> 'f MapView \<times> bool" where
  "SetCenterFromFirstAircraft F m acs =
     (if centerSet m then (m, False) else SetCenterFromFirstAircraft_loop F m acs)"

definition CenterOnAircraft ::
  "'f::{times,inverse,ord} float64_ops \<Rightarrow> 'f MapView \<Rightarrow> 'f Aircraft option \<Rightarrow> 'f MapView" where
  "CenterOnAircraft F m acp =
     (case acp of
        None \<Rightarrow> m
      | Some ac \<Rightarrow>
          if \<not> PositionLocked ac then m
          else set_center F m (the (Latitude ac)) (the (Longitude ac)))"

definition UpdateDimensions ::
  "'f::{times,inverse,ord} float64_ops \<Rightarrow> 'f MapView \<Rightarrow> int \<Rightarrow> int \<Rightarrow> panic + 'f MapView" where
  "UpdateDimensions F m w h =
     (case NewCanvas w h of
        Inl e \<Rightarrow> Inl e
      | Inr canvas' \<Rightarrow>
          Inr (m\<lparr>mv_width := w, mv_height := h,
                 renderer := (renderer m)
                   \<lparr>projection := Projection_UpdateDimensions F (projection (renderer m)) w h,
                    canvas := canvas'\<rparr>\<rparr>))"

definition SetRadius :: "'f::{times,inverse,ord} float64_ops \<Rightarrow> 'f MapView \<Rightarrow> 'f \<Rightarrow> 'f MapView" where
  "SetRadius F m radius =
     (let (centerLat0, centerLon0) = GetCenter (projection (renderer m))
      in m\<lparr>mv_radiusMiles := radius,
           renderer := (renderer m)
             \<lparr>projection := NewProjection F centerLat0 centerLon0 radius
                              (mv_width m) (mv_height m) (mv_aspectRatio m)\<rparr>\<rparr>)"

definition ZoomIn :: "'f::{times,inverse,ord} float64_ops \<Rightarrow> 'f MapView \<Rightarrow> 'f MapView" where
  "ZoomIn F m =
     (let newRadius = mv_radiusMiles m * const F 0.75;
          newRadius = (if newRadius < const F 10 then const F 10 else newRadius)
      in SetRadius F m newRadius)"

definition ZoomOut :: "'f::{times,inverse,ord} float64_ops \<Rightarrow> 'f MapView \<Rightarrow> 'f MapView" where
  "ZoomOut F m =
     (let newRadius = mv_radiusMiles m * const F 1.33;
          newRadius = (if newRadius > const F 1000 then const F 1000 else newRadius)
      in SetRadius F m newRadius)"

text \<open>
  The calls that the application makes on a map view between two frames, and a run of
  such calls; a panic ends the run.
\<close>

datatype 'f MapView_call =
    Call_SetCenterFromFirstAircraft "'f Aircraft list"
  | Call_CenterOnAircraft "'f Aircraft option"
  | Call_UpdateDimensions int int
  | Call_SetRadius 'f
  | Call_ZoomIn
  | Call_ZoomOut

fun call :: "'f::{times,inverse,ord} float64_ops \<Rightarrow> 'f MapView \<Rightarrow> 'f MapView_call \<Rightarrow> panic + 'f MapView" where
  "call F m (Call_SetCenterFromFirstAircraft acs) = Inr (fst (SetCenterFromFirstAircraft F m acs))"
| "call F m (Call_CenterOnAircraft acp) = Inr (CenterOnAircraft F m acp)"
| "call F m (Call_UpdateDimensions w h) = UpdateDimensions F m w h"
| "call F m (Call_SetRadius r) = Inr (SetRadius F m r)"
| "call F m Call_ZoomIn = Inr (ZoomIn F m)"
| "call F m Call_ZoomOut = Inr (ZoomOut F m)"

fun calls :: "'f::{times,inverse,ord} float64_ops \<Rightarrow> 'f MapView \<Rightarrow> 'f MapView_call list \<Rightarrow> panic + 'f MapView" where
  "calls F m [] = Inr m"
| "calls F m (c # cs) = (case call F m c of Inl e \<Rightarrow> Inl e | Inr m' \<Rightarrow> calls F m' cs)"

section \<open>Specification-level notions\<close>

text \<open>
  The symbol of the octant \<open>k\<close>, the arc of 45 degrees centred on \<open>45 * k\<close> degrees;
  an angle of \<open>d\<close> whole degrees lies in the octant \<open>(2 * d + 45) div 90 mod 8\<close>, whose
  boundaries are at \<open>22.5 + 45 * k\<close> degrees.
\<close>

definition octant_symbols :: "rune list" where
  "octant_symbols = [rune_N, rune_NE, rune_E, rune_SE, rune_S, rune_SW, rune_W, rune_NW]"

definition octant :: "int \<Rightarrow> nat" where
  "octant d = nat ((2 * d + 45) div 90 mod 8)"

text \<open>
  What a sweep over the keys \<open>K\<close> leaves of a map, and the keys in \<open>K\<close> whose entries
  are stale.
\<close>

definition prune_map :: "Time \<Rightarrow> string set \<Rightarrow> (string \<rightharpoonup> 'f Aircraft) \<Rightarrow> (string \<rightharpoonup> 'f Aircraft)" where
  "prune_map now K m =
     (\<lambda>k. if k \<in> K
          then (case m k of None \<Rightarrow> None | Some ac \<Rightarrow> if IsStale now ac then None else Some ac)
          else m k)"

definition stale_keys :: "Time \<Rightarrow> string set \<Rightarrow> (string \<rightharpoonup> 'f Aircraft) \<Rightarrow> string set" where
  "stale_keys now K m = {k \<in> K. \<exists>ac. m k = Some ac \<and> IsStale now ac}"



text \<open>The collision test of the specification between two grid positions.\<close>

definition collides :: "Point \<Rightarrow> Point \<Rightarrow> bool" where
  "collides a p \<longleftrightarrow>
     (Y a = Y p \<and> \<bar>X a - X p\<bar> \<le> 5) \<or> (\<bar>Y a - Y p\<bar> \<le> 1 \<and> \<bar>X a - X p\<bar> \<le> 3)"

section \<open>Sample data\<close>

text \<open>The operations of \<open>float64\<close> over the reals: every result exact.\<close>

definition exact_ops :: "real float64_ops" where
  "exact_ops = \<lparr>Cos = cos, const = (\<lambda>r. r), float64 = real_of_int,
                 to_int = (\<lambda>x. if x < 0 then \<lceil>x\<rceil> else \<lfloor>x\<rfloor>)\<rparr>"

definition sample_entry :: "real Aircraft" where
  "sample_entry = \<lparr>ICAO = ''A1'', FlightNumber = ''UAL123'', Latitude = Some 40, Longitude = Some (- 100),
     Altitude = 5000, Speed = 200, Heading = 90, Track = 90, VerticalRate = 0, LastSeen = 2 * Second\<rparr>"

definition sample_record :: "real Aircraft" where
  "sample_record = \<lparr>ICAO = ''A1'', FlightNumber = [], Latitude = None, Longitude = None,
     Altitude = 0, Speed = 0, Heading = 0, Track = 0, VerticalRate = 0, LastSeen = 5 * Second\<rparr>"

definition sample_old :: "real Aircraft" where
  "sample_old = \<lparr>ICAO = ''B2'', FlightNumber = [], Latitude = None, Longitude = None,
     Altitude = 0, Speed = 0, Heading = 0, Track = 0, VerticalRate = 0, LastSeen = 0\<rparr>"

definition sample_tracker :: "real Tracker" where
  "sample_tracker = Update (Update (NewTracker (3600 * Second)) (Some sample_entry)) (Some sample_old)"

definition sample_canvas :: Canvas where
  "sample_canvas = \<lparr>width = 5, height = 1, cells = [[blank, blank, blank, blank, blank]]\<rparr>"

section \<open>The direction symbol\<close>

lemma smod_fix: "(if k smod 360 < 0 then k smod 360 + 360 else k smod 360) = k mod 360" for k :: int
proof (cases "sgn k \<noteq> sgn (360::int) \<and> \<not> 360 dvd k")
  case True
  then have "k smod 360 = k mod 360 - 360"
    by (simp add: signed_modulo_int_eq_modulo_int)
  moreover have "0 \<le> k mod 360" "k mod 360 < 360" by simp_all
  ultimately show ?thesis by simp
next
  case False
  then have "k smod 360 = k mod 360"
    by (simp add: signed_modulo_int_eq_modulo_int)
  moreover have "0 \<le> k mod 360" by simp
  ultimately show ?thesis by simp
qed

lemma normalize_direction_mod:
  "normalize_direction a = (if Track a \<noteq> 0 then Track a else Heading a) mod 360"
proof -
  have "normalize_direction a =
      (let k = (if Track a = 0 \<and> Heading a \<noteq> 0 then Heading a else Track a)
       in if k smod 360 < 0 then k smod 360 + 360 else k smod 360)"
    unfolding normalize_direction_def Let_def by (rule refl)
  also have "\<dots> = (if Track a = 0 \<and> Heading a \<noteq> 0 then Heading a else Track a) mod 360"
    unfolding Let_def by (rule smod_fix)
  also have "\<dots> = (if Track a \<noteq> 0 then Track a else Heading a) mod 360"
    by (cases "Track a = 0"; cases "Heading a = 0"; simp)
  finally show ?thesis .
qed

lemma normalize_direction_range: "0 \<le> normalize_direction a \<and> normalize_direction a < 360"
  by (simp add: normalize_direction_mod)

lemma div90: "90 * q \<le> n \<Longrightarrow> n < 90 * q + 90 \<Longrightarrow> n div 90 = q" for n q :: int
  by (rule int_div_pos_eq [where r = "n - 90 * q"]) auto

lemma octant_cases:
  fixes d :: int
  assumes "0 \<le> d" "d < 360"
  shows "octant d =
     (if d \<ge> 338 \<or> d < 23 then 0
         else if d < 68 then 1
         else if d < 113 then 2
         else if d < 158 then 3
         else if d < 203 then 4
         else if d < 248 then 5
         else if d < 293 then 6
         else 7)"
proof -
  consider "d < 23" | "23 \<le> d \<and> d < 68" | "68 \<le> d \<and> d < 113" | "113 \<le> d \<and> d < 158"
    | "158 \<le> d \<and> d < 203" | "203 \<le> d \<and> d < 248" | "248 \<le> d \<and> d < 293" | "293 \<le> d \<and> d < 338" | "338 \<le> d"
    by linarith
  then show ?thesis
  proof cases
    case 1 then have "(2 * d + 45) div 90 = 0" using assms by (intro div90) auto
    then show ?thesis using 1 by (simp add: octant_def)
  next
    case 2 then have "(2 * d + 45) div 90 = 1" by (intro div90) auto
    then show ?thesis using 2 by (simp add: octant_def)
  next
    case 3 then have "(2 * d + 45) div 90 = 2" by (intro div90) auto
    then show ?thesis using 3 by (simp add: octant_def)
  next
    case 4 then have "(2 * d + 45) div 90 = 3" by (intro div90) auto
    then show ?thesis using 4 by (simp add: octant_def)
  next
    case 5 then have "(2 * d + 45) div 90 = 4" by (intro div90) auto
    then show ?thesis using 5 by (simp add: octant_def)
  next
    case 6 then have "(2 * d + 45) div 90 = 5" by (intro div90) auto
    then show ?thesis using 6 by (simp add: octant_def)
  next
    case 7 then have "(2 * d + 45) div 90 = 6" by (intro div90) auto
    then show ?thesis using 7 by (simp add: octant_def)
  next
    case 8 then have "(2 * d + 45) div 90 = 7" by (intro div90) auto
    then show ?thesis using 8 by (simp add: octant_def)
  next
    case 9 then have "(2 * d + 45) div 90 = 8" using assms by (intro div90) auto
    then show ?thesis using 9 by (simp add: octant_def)
  qed
qed

lemma CardinalDirection_octant:
  "CardinalDirection a = octant_symbols ! octant (normalize_direction a)"
proof -
  let ?d = "normalize_direction a"
  have r: "0 \<le> ?d" "?d < 360" using normalize_direction_range [of a] by simp_all
  show ?thesis
    unfolding CardinalDirection_def Let_def octant_cases [OF r]
    using r by (simp add: octant_symbols_def)
qed

lemma octant_symbols_distinct: "distinct octant_symbols"
  by (simp add: octant_symbols_def rune_N_def rune_NE_def rune_E_def rune_SE_def rune_S_def
      rune_SW_def rune_W_def rune_NW_def)

text \<open>
  C7. \<open>CardinalDirection\<close> takes the angle from \<open>Track\<close> when that is not zero and from
  \<open>Heading\<close> otherwise, brings it into the range from 0 to 359, and returns the symbol of
  the octant of the angle: the arcs of 45 degrees with boundaries at 22.5 + 45 k degrees,
  which for whole degrees are 338..359 and 0..22 (north), 23..67, 68..112, 113..157,
  158..202, 203..247, 248..292 and 293..337. The eight symbols differ from one another. An
  aircraft with track 0 and heading 0 gets the symbol of north, as one with track 360 does.
\<close>

theorem CardinalDirection_arcs:
  "normalize_direction a = (if Track a \<noteq> 0 then Track a else Heading a) mod 360
   \<and> 0 \<le> normalize_direction a \<and> normalize_direction a < 360
   \<and> CardinalDirection a = octant_symbols ! octant (normalize_direction a)
   \<and> CardinalDirection a =
       (let d = normalize_direction a
        in if 338 \<le> d \<and> d < 360 \<or> 0 \<le> d \<and> d < 23 then rune_N
           else if 23 \<le> d \<and> d < 68 then rune_NE
           else if 68 \<le> d \<and> d < 113 then rune_E
           else if 113 \<le> d \<and> d < 158 then rune_SE
           else if 158 \<le> d \<and> d < 203 then rune_S
           else if 203 \<le> d \<and> d < 248 then rune_SW
           else if 248 \<le> d \<and> d < 293 then rune_W
           else rune_NW)
   \<and> length octant_symbols = 8 \<and> distinct octant_symbols
   \<and> CardinalDirection (a\<lparr>Track := 0, Heading := 0\<rparr>) = rune_N
   \<and> CardinalDirection (a\<lparr>Track := 0, Heading := 0\<rparr>) = CardinalDirection (a\<lparr>Track := 360\<rparr>)"
proof -
  have r: "0 \<le> normalize_direction a" "normalize_direction a < 360"
    using normalize_direction_range [of a] by simp_all
  have chain: "CardinalDirection a =
       (let d = normalize_direction a
        in if 338 \<le> d \<and> d < 360 \<or> 0 \<le> d \<and> d < 23 then rune_N
           else if 23 \<le> d \<and> d < 68 then rune_NE
           else if 68 \<le> d \<and> d < 113 then rune_E
           else if 113 \<le> d \<and> d < 158 then rune_SE
           else if 158 \<le> d \<and> d < 203 then rune_S
           else if 203 \<le> d \<and> d < 248 then rune_SW
           else if 248 \<le> d \<and> d < 293 then rune_W
           else rune_NW)"
    using r by (simp add: CardinalDirection_def Let_def)
  have z: "CardinalDirection (a\<lparr>Track := 0, Heading := 0\<rparr>) = rune_N"
    by (simp add: CardinalDirection_def normalize_direction_mod)
  have n: "CardinalDirection (a\<lparr>Track := 360\<rparr>) = rune_N"
    by (simp add: CardinalDirection_def normalize_direction_mod)
  show ?thesis
    using normalize_direction_mod [of a] r CardinalDirection_octant [of a] chain
      octant_symbols_distinct z n
    by (simp add: octant_symbols_def)
qed

section \<open>Tracker.Update\<close>

lemma merge_fields:
  "ICAO (merge e ac) = ICAO e"
  "FlightNumber (merge e ac) = (if FlightNumber ac \<noteq> [] then FlightNumber ac else FlightNumber e)"
  "Latitude (merge e ac) = (if Latitude ac \<noteq> None then Latitude ac else Latitude e)"
  "Longitude (merge e ac) = (if Longitude ac \<noteq> None then Longitude ac else Longitude e)"
  "Altitude (merge e ac) = (if Altitude ac \<noteq> 0 then Altitude ac else Altitude e)"
  "Speed (merge e ac) = (if Speed ac \<noteq> 0 then Speed ac else Speed e)"
  "Heading (merge e ac) = (if Heading ac \<noteq> 0 then Heading ac else Heading e)"
  "Track (merge e ac) = (if Track ac \<noteq> 0 then Track ac else Track e)"
  "VerticalRate (merge e ac) = (if VerticalRate ac \<noteq> 0 then VerticalRate ac else VerticalRate e)"
  "LastSeen (merge e ac) = LastSeen ac"
  by (simp_all add: merge_def Let_def)

text \<open>
  C1. When the tracker holds an entry under the non-empty key of the incoming record,
  \<open>Update\<close> replaces that entry by the merge and leaves every other entry alone. Each
  field of the merged entry is the field of the incoming record when that is not empty
  (strings, pointers) or not zero (numbers), and the field of the existing entry
  otherwise; the key stays; \<open>LastSeen\<close> is always that of the incoming record. An
  existing speed of 200 survives an incoming speed of 0.
\<close>

theorem Update_merges:
  assumes "aircraft t (ICAO ac) = Some e" and "ICAO ac \<noteq> []"
  shows "Update t (Some ac) = t\<lparr>aircraft := (aircraft t)(ICAO ac \<mapsto> merge e ac)\<rparr>
    \<and> ICAO (merge e ac) = ICAO e
    \<and> FlightNumber (merge e ac) = (if FlightNumber ac \<noteq> [] then FlightNumber ac else FlightNumber e)
    \<and> Latitude (merge e ac) = (if Latitude ac \<noteq> None then Latitude ac else Latitude e)
    \<and> Longitude (merge e ac) = (if Longitude ac \<noteq> None then Longitude ac else Longitude e)
    \<and> Altitude (merge e ac) = (if Altitude ac \<noteq> 0 then Altitude ac else Altitude e)
    \<and> Speed (merge e ac) = (if Speed ac \<noteq> 0 then Speed ac else Speed e)
    \<and> Heading (merge e ac) = (if Heading ac \<noteq> 0 then Heading ac else Heading e)
    \<and> Track (merge e ac) = (if Track ac \<noteq> 0 then Track ac else Track e)
    \<and> VerticalRate (merge e ac) = (if VerticalRate ac \<noteq> 0 then VerticalRate ac else VerticalRate e)
    \<and> LastSeen (merge e ac) = LastSeen ac
    \<and> (Speed e = 200 \<and> Speed ac = 0 \<longrightarrow> Speed (merge e ac) = 200)"
  using assms by (simp add: Update_def merge_fields)

lemma sample_tracker_map:
  "aircraft sample_tracker = [''A1'' \<mapsto> sample_entry, ''B2'' \<mapsto> sample_old]"
  by (simp add: sample_tracker_def Update_def NewTracker_def sample_entry_def sample_old_def)

theorem Update_merges_witness:
  "aircraft sample_tracker (ICAO sample_record) = Some sample_entry \<and> ICAO sample_record \<noteq> []
   \<and> Speed sample_entry = 200 \<and> Speed sample_record = 0
   \<and> map_option Speed (aircraft (Update sample_tracker (Some sample_record)) ''A1'') = Some 200
   \<and> map_option LastSeen (aircraft (Update sample_tracker (Some sample_record)) ''A1'') = Some (5 * Second)"
proof -
  have h1: "aircraft sample_tracker (ICAO sample_record) = Some sample_entry"
    by (simp add: sample_tracker_map sample_record_def)
  have h2: "ICAO sample_record \<noteq> []"
    by (simp add: sample_record_def)
  show ?thesis
    using Update_merges [OF h1 h2] h1 h2
    by (simp add: sample_entry_def sample_record_def)
qed

text \<open>
  C8. \<open>Update\<close> with a nil record, or with a record whose ICAO identifier is empty,
  returns the tracker as it was.
\<close>

theorem Update_empty_key:
  "Update t None = t \<and> Update t (Some (ac\<lparr>ICAO := []\<rparr>)) = t"
  by (simp add: Update_def)

section \<open>Tracker.PruneStale\<close>


lemma finite_stale_keys: "finite K \<Longrightarrow> finite (stale_keys now K m)"
  by (simp add: stale_keys_def)

lemma PruneStale_loop_eq:
  "PruneStale_loop now order t removed =
     (t\<lparr>aircraft := prune_map now (set order) (aircraft t)\<rparr>,
      removed + int (card (stale_keys now (set order) (aircraft t))))"
proof (induction order arbitrary: t removed)
  case Nil
  show ?case by (simp add: prune_map_def stale_keys_def)
next
  case (Cons icao rest)
  show ?case
  proof (cases "aircraft t icao")
    case None
    have m: "prune_map now (set (icao # rest)) (aircraft t) = prune_map now (set rest) (aircraft t)"
      using None by (auto simp: prune_map_def fun_eq_iff)
    have s: "stale_keys now (set (icao # rest)) (aircraft t) = stale_keys now (set rest) (aircraft t)"
      using None by (auto simp: stale_keys_def)
    show ?thesis using None by (simp add: Cons.IH m s del: set_simps)
  next
    case (Some ac)
    show ?thesis
    proof (cases "IsStale now ac")
      case False
      have m: "prune_map now (set (icao # rest)) (aircraft t) = prune_map now (set rest) (aircraft t)"
        using Some False by (auto simp: prune_map_def fun_eq_iff)
      have s: "stale_keys now (set (icao # rest)) (aircraft t) = stale_keys now (set rest) (aircraft t)"
        using Some False by (auto simp: stale_keys_def)
      show ?thesis using Some False by (simp add: Cons.IH m s del: set_simps)
    next
      case True
      let ?m' = "(aircraft t)(icao := None)"
      have m: "prune_map now (set (icao # rest)) (aircraft t) = prune_map now (set rest) ?m'"
        using Some True by (auto simp: prune_map_def fun_eq_iff)
      have s: "stale_keys now (set (icao # rest)) (aircraft t) = insert icao (stale_keys now (set rest) ?m')"
        using Some True by (auto simp: stale_keys_def)
      have notin: "icao \<notin> stale_keys now (set rest) ?m'"
        by (simp add: stale_keys_def)
      have fin: "finite (stale_keys now (set rest) ?m')"
        by (simp add: finite_stale_keys)
      have c: "card (stale_keys now (set (icao # rest)) (aircraft t)) = Suc (card (stale_keys now (set rest) ?m'))"
        unfolding s using notin fin by simp
      have step: "PruneStale_loop now (icao # rest) t removed =
          PruneStale_loop now rest (t\<lparr>aircraft := ?m'\<rparr>) (removed + 1)"
        using Some True by simp
      have "PruneStale_loop now rest (t\<lparr>aircraft := ?m'\<rparr>) (removed + 1) =
          (t\<lparr>aircraft := prune_map now (set rest) ?m'\<rparr>,
           removed + 1 + int (card (stale_keys now (set rest) ?m')))"
        by (simp only: Cons.IH) (simp add: fun_upd_def)
      then show ?thesis
        unfolding step m c by simp
    qed
  qed
qed



lemma PruneStale_timeout: "timeout (fst (PruneStale now order t)) = timeout t"
  unfolding PruneStale_def PruneStale_loop_eq by simp





section \<open>Canvas.Set\<close>

lemma NewCanvas_sample: "NewCanvas 5 1 = Inr sample_canvas"
  by (simp add: NewCanvas_def sample_canvas_def eval_nat_numeral)

text \<open>
  C4. \<open>Set\<close> at a position outside the canvas (\<open>x < 0\<close>, \<open>x \<ge> width\<close>, \<open>y < 0\<close> or
  \<open>y \<ge> height\<close>) returns without a panic and leaves the canvas as it was; so do
  \<open>Set(-5, -5)\<close> and \<open>Set(width + 5, height + 5)\<close>.
\<close>

theorem Canvas_Set_clips:
  "(x < 0 \<or> x \<ge> width c \<or> y < 0 \<or> y \<ge> height c \<longrightarrow> Canvas_Set c x y char style = Inr c)
   \<and> Canvas_Set c (- 5) (- 5) char style = Inr c
   \<and> Canvas_Set c (width c + 5) (height c + 5) char style = Inr c"
  by (auto simp: Canvas_Set_def)

theorem Canvas_Set_clips_witness:
  "(7 \<ge> width sample_canvas) \<and> Canvas_Set sample_canvas 7 0 0x78 StyleDefault = Inr sample_canvas"
  using Canvas_Set_clips [of 7 sample_canvas 0 "0x78" StyleDefault]
  by (simp add: sample_canvas_def)

end
